theory Spec2Isabelle
  imports Main
begin

section \<open>Client response accessors (client/model.go)\<close>

text \<open>
  The effects the accessors compare: \<open>EFFECT_ALLOW\<close> and \<open>EFFECT_DENY\<close>, and the zero
  value of the enumeration, \<open>EFFECT_UNSPECIFIED\<close>, which is what a Go map read returns
  for a missing key.
\<close>

datatype Effect = EFFECT_UNSPECIFIED | EFFECT_ALLOW | EFFECT_DENY

text \<open>
  A Go run-time panic is a value of the model. Every Go pointer that the accessors
  read through is an \<open>option\<close> (\<open>None\<close> is \<open>nil\<close>), and a field read through
  \<open>nil\<close> panics. A Go map is a partial function: reading an absent key gives \<open>None\<close>
  (the \<open>ok\<close> flag is false), also when the map itself is \<open>nil\<close>.
\<close>

datatype panic = NilPointerDereference | IndexOutOfRange

subsection \<open>CheckResourceSetResponse\<close>





subsection \<open>CheckResourceBatchResponse\<close>

record BatchResult =
  ResourceId :: string
  BatchActions :: "string \<rightharpoonup> Effect"

text \<open>\<open>responsev1.CheckResourceBatchResponse\<close>: \<open>Results []*ActionEffectMap\<close>.\<close>

record CheckResourceBatchResponse_pb =
  Results :: "BatchResult option list"

text \<open>
  The client's wrapper: the embedded pointer to the message, the index \<open>idx\<close> from a
  resource identifier to the positions of its entries, and the \<open>sync.Once\<close> that guards
  the construction of the index (\<open>once_done\<close> is its \<open>done\<close> flag). The accessor changes
  the wrapper, so it takes the wrapper and returns it with its answer. A \<open>nil\<close> index
  reads like an empty one.
\<close>

record CheckResourceBatchResponse =
  BatchResponse :: "CheckResourceBatchResponse_pb option"
  idx :: "string \<rightharpoonup> nat list"
  once_done :: bool

text \<open>A response before its first call: the index is \<open>nil\<close> and the \<open>Once\<close> has not run.\<close>

definition fresh_batch :: "CheckResourceBatchResponse_pb \<Rightarrow> CheckResourceBatchResponse" where
  "fresh_batch pb = \<lparr>BatchResponse = Some pb, idx = Map.empty, once_done = False\<rparr>"

text \<open>
  The loop of \<open>buildIdx\<close> ranges over \<open>Results\<close> with the position \<open>i\<close> and appends
  \<open>i\<close> to the index list of \<open>r.ResourceId\<close>. The field read \<open>r.ResourceId\<close> goes
  through the pointer \<open>r\<close>, so a \<open>nil\<close> entry panics here; the map that \<open>crbr.idx\<close>
  refers to then keeps what the loop has written so far.
\<close>

fun buildIdx_loop ::
  "nat \<Rightarrow> BatchResult option list \<Rightarrow> (string \<rightharpoonup> nat list)
     \<Rightarrow> panic option \<times> (string \<rightharpoonup> nat list)" where
  "buildIdx_loop i [] m = (None, m)"
| "buildIdx_loop i (None # rs) m = (Some NilPointerDereference, m)"
| "buildIdx_loop i (Some r # rs) m =
     buildIdx_loop (Suc i) rs
       (m(ResourceId r \<mapsto> (case m (ResourceId r) of None \<Rightarrow> [] | Some v \<Rightarrow> v) @ [i]))"

text \<open>
  \<open>buildIdx\<close> runs its body under \<open>crbr.once.Do\<close>: a later call does nothing, and a
  body that panics counts as done. The body first makes the map, sized by
  \<open>len(crbr.Results)\<close> (a read through the embedded pointer, which panics before
  \<open>crbr.idx\<close> is assigned when that pointer is \<open>nil\<close>), then runs the loop.
\<close>

definition buildIdx ::
  "CheckResourceBatchResponse \<Rightarrow> panic option \<times> CheckResourceBatchResponse" where
  "buildIdx crbr =
     (if once_done crbr then (None, crbr)
      else case BatchResponse crbr of
             None \<Rightarrow> (Some NilPointerDereference, crbr\<lparr>once_done := True\<rparr>)
           | Some pb \<Rightarrow>
               (case buildIdx_loop 0 (Results pb) Map.empty of
                  (p, m) \<Rightarrow> (p, crbr\<lparr>idx := m, once_done := True\<rparr>)))"

text \<open>
  The loop of \<open>IsAllowed\<close> over the positions found in the index: \<open>crbr.Results[i]\<close>
  reads through the embedded pointer and panics when \<open>i\<close> is out of range; a \<open>nil\<close>
  entry is skipped; the first entry that has the action answers.
\<close>

fun IsAllowed_loop ::
  "CheckResourceBatchResponse_pb option \<Rightarrow> nat list \<Rightarrow> string \<Rightarrow> panic + bool" where
  "IsAllowed_loop pbo [] action = Inr False"
| "IsAllowed_loop pbo (i # indexes) action =
     (case pbo of
        None \<Rightarrow> Inl NilPointerDereference
      | Some pb \<Rightarrow>
          if length (Results pb) \<le> i then Inl IndexOutOfRange
          else case Results pb ! i of
                 None \<Rightarrow> IsAllowed_loop pbo indexes action
               | Some r \<Rightarrow>
                   (case BatchActions r action of
                      Some effect \<Rightarrow> Inr (effect = EFFECT_ALLOW)
                    | None \<Rightarrow> IsAllowed_loop pbo indexes action))"

definition CheckResourceBatchResponse_IsAllowed ::
  "CheckResourceBatchResponse \<Rightarrow> string \<Rightarrow> string
     \<Rightarrow> (panic + bool) \<times> CheckResourceBatchResponse" where
  "CheckResourceBatchResponse_IsAllowed crbr resourceID action =
     (case buildIdx crbr of
        (Some p, crbr') \<Rightarrow> (Inl p, crbr')
      | (None, crbr') \<Rightarrow>
          (case idx crbr' resourceID of
             None \<Rightarrow> (Inr False, crbr')
           | Some indexes \<Rightarrow> (IsAllowed_loop (BatchResponse crbr') indexes action, crbr')))"

subsection \<open>ResourceResult\<close>












section \<open>The JSON schema of resource rules (ResourceRule.schema.json)\<close>

text \<open>
  A JSON value. An object is the list of its members in document order. Numbers do not
  occur in the schemas modelled here.
\<close>

datatype json =
    JNull
  | JBool bool
  | JNumber int
  | JString string
  | JArray "json list"
  | JObject "(string \<times> json) list"

subsection \<open>The keywords of JSON Schema draft-07 that the schema uses\<close>

fun type_object :: "json \<Rightarrow> bool" where
  "type_object (JObject kvs) = True"
| "type_object _ = False"

fun type_string :: "json \<Rightarrow> bool" where
  "type_string (JString s) = True"
| "type_string _ = False"

fun type_array :: "json \<Rightarrow> bool" where
  "type_array (JArray xs) = True"
| "type_array _ = False"

fun members :: "json \<Rightarrow> (string \<times> json) list" where
  "members (JObject kvs) = kvs"
| "members _ = []"

definition has_key :: "string \<Rightarrow> json \<Rightarrow> bool" where
  "has_key k v = (k \<in> fst ` set (members v))"

text \<open>\<open>required\<close> and \<open>additionalProperties: false\<close> constrain objects only.\<close>

definition required :: "string list \<Rightarrow> json \<Rightarrow> bool" where
  "required ks v = (type_object v \<longrightarrow> (\<forall>k \<in> set ks. has_key k v))"

definition no_additionalProperties :: "string list \<Rightarrow> json \<Rightarrow> bool" where
  "no_additionalProperties props v = (\<forall>(k, x) \<in> set (members v). k \<in> set props)"

text \<open>\<open>oneOf\<close>: exactly one of the subschemas accepts the value.\<close>

definition oneOf :: "bool list \<Rightarrow> bool" where
  "oneOf bs = (length (filter (\<lambda>b. b) bs) = 1)"

subsection \<open>cerbos.policy.v1.Match and cerbos.policy.v1.Match.ExprList\<close>

text \<open>
  \<open>Match\<close> is \<open>allOf\<close> of two schemas: the object with the properties \<open>all\<close>,
  \<open>any\<close>, \<open>expr\<close>, \<open>none\<close> and no others, and the \<open>oneOf\<close> over the four
  \<open>required\<close> clauses. \<open>ExprList\<close> is an object that requires \<open>of\<close>, allows nothing
  else, and whose \<open>of\<close> is an array of \<open>Match\<close> with \<open>minItems: 1\<close>.
\<close>

fun valid_Match :: "json \<Rightarrow> bool"
  and valid_ExprList :: "json \<Rightarrow> bool"
  and valid_of :: "json \<Rightarrow> bool" where
  "valid_Match (JObject kvs) =
     ((type_object (JObject kvs)
       \<and> no_additionalProperties [''all'', ''any'', ''expr'', ''none''] (JObject kvs)
       \<and> (\<forall>(k, x) \<in> set kvs.
             (k = ''all'' \<longrightarrow> valid_ExprList x)
           \<and> (k = ''any'' \<longrightarrow> valid_ExprList x)
           \<and> (k = ''expr'' \<longrightarrow> type_string x)
           \<and> (k = ''none'' \<longrightarrow> valid_ExprList x)))
      \<and> oneOf [type_object (JObject kvs) \<and> required [''all''] (JObject kvs),
                type_object (JObject kvs) \<and> required [''any''] (JObject kvs),
                type_object (JObject kvs) \<and> required [''none''] (JObject kvs),
                type_object (JObject kvs) \<and> required [''expr''] (JObject kvs)])"
| "valid_Match _ = False"
| "valid_ExprList (JObject kvs) =
     (type_object (JObject kvs)
      \<and> required [''of''] (JObject kvs)
      \<and> no_additionalProperties [''of''] (JObject kvs)
      \<and> (\<forall>(k, x) \<in> set kvs. k = ''of'' \<longrightarrow> valid_of x))"
| "valid_ExprList _ = False"
| "valid_of (JArray items) = ((\<forall>m \<in> set items. valid_Match m) \<and> 1 \<le> length items)"
| "valid_of _ = False"

text \<open>The variants of a \<open>Match\<close> value that are set.\<close>

definition variants_set :: "json \<Rightarrow> string list" where
  "variants_set v = filter (\<lambda>k. has_key k v) [''all'', ''any'', ''none'', ''expr'']"

fun items_of :: "json \<Rightarrow> json list" where
  "items_of (JArray items) = items"
| "items_of _ = []"

text \<open>
  An expression list whose \<open>of\<close> is present and holds at least one element (every
  member of the object is an \<open>of\<close> array with an element).
\<close>

definition nonempty_of :: "json \<Rightarrow> bool" where
  "nonempty_of x =
     (has_key ''of'' x
      \<and> (\<forall>(k, y) \<in> set (members x). k = ''of'' \<and> type_array y \<and> 1 \<le> length (items_of y)))"

subsection \<open>Example values\<close>

definition example_match :: json where
  "example_match =
     JObject [(''all'', JObject [(''of'',
        JArray [JObject [(''expr'', JString ''R.attr.status == V.pending_approval'')],
                JObject [(''none'', JObject [(''of'',
                   JArray [JObject [(''expr'', JString ''R.attr.dev_record == true'')]])])]])])]"



text \<open>Responses with a \<open>nil\<close> entry, before their first call.\<close>

definition nil_entry_batch :: CheckResourceBatchResponse where
  "nil_entry_batch = fresh_batch \<lparr>Results = [None]\<rparr>"

definition allow_then_nil_batch :: CheckResourceBatchResponse where
  "allow_then_nil_batch = fresh_batch \<lparr>Results =
     [Some \<lparr>ResourceId = ''XX125'', BatchActions = [''approve'' \<mapsto> EFFECT_ALLOW]\<rparr>, None]\<rparr>"


section \<open>Patterns of the schema\<close>

text \<open>
  The regular expressions that the schema's \<open>pattern\<close> keyword uses: character
  classes made of ranges, concatenation, alternation and repetition. A pattern that is
  anchored at both ends (\<open>^\<close> ... \<open>$\<close>) must match the whole string.
\<close>

datatype rx =
    Empty
  | Eps
  | Cls "(char \<times> char) list"
  | Cat rx rx
  | Or rx rx
  | Rep rx

definition in_class :: "(char \<times> char) list \<Rightarrow> char \<Rightarrow> bool" where
  "in_class ranges c =
     list_ex (\<lambda>(lo, hi). (of_char lo :: nat) \<le> of_char c \<and> (of_char c :: nat) \<le> of_char hi) ranges"

fun accepts_empty :: "rx \<Rightarrow> bool" where
  "accepts_empty Empty = False"
| "accepts_empty Eps = True"
| "accepts_empty (Cls ranges) = False"
| "accepts_empty (Cat r s) = (accepts_empty r \<and> accepts_empty s)"
| "accepts_empty (Or r s) = (accepts_empty r \<or> accepts_empty s)"
| "accepts_empty (Rep r) = True"

text \<open>What is left of a pattern once it has read the character \<open>c\<close>.\<close>

fun after :: "char \<Rightarrow> rx \<Rightarrow> rx" where
  "after c Empty = Empty"
| "after c Eps = Empty"
| "after c (Cls ranges) = (if in_class ranges c then Eps else Empty)"
| "after c (Cat r s) =
     (if accepts_empty r then Or (Cat (after c r) s) (after c s) else Cat (after c r) s)"
| "after c (Or r s) = Or (after c r) (after c s)"
| "after c (Rep r) = Cat (after c r) (Rep r)"

fun rx_match :: "rx \<Rightarrow> string \<Rightarrow> bool" where
  "rx_match r [] = accepts_empty r"
| "rx_match r (c # s) = rx_match (after c r) s"

text \<open>The strings a pattern denotes.\<close>

definition seqs :: "string set \<Rightarrow> string set \<Rightarrow> string set" where
  "seqs A B = {u @ v | u v. u \<in> A \<and> v \<in> B}"

inductive_set reps :: "string set \<Rightarrow> string set" for A :: "string set" where
  reps_none: "[] \<in> reps A"
| reps_more: "u \<in> A \<Longrightarrow> v \<in> reps A \<Longrightarrow> u @ v \<in> reps A"

fun lang :: "rx \<Rightarrow> string set" where
  "lang Empty = {}"
| "lang Eps = {[]}"
| "lang (Cls ranges) = {[c] | c. in_class ranges c}"
| "lang (Cat r s) = seqs (lang r) (lang s)"
| "lang (Or r s) = lang r \<union> lang s"
| "lang (Rep r) = reps (lang r)"

subsection \<open>ResourceRule.name\<close>

text \<open>
  The schema gives \<open>name\<close> the pattern \<^verbatim>\<open>^([A-Za-z][\--\.0-9@-Z_a-z]*)*$\<close>. In the
  second class \<^verbatim>\<open>\--\.\<close> is the range from \<open>-\<close> to \<open>.\<close> and \<^verbatim>\<open>@-Z\<close> the range
  from \<open>@\<close> to \<open>Z\<close>.
\<close>

definition alpha_class :: "(char \<times> char) list" where
  "alpha_class = [(CHR ''A'', CHR ''Z''), (CHR ''a'', CHR ''z'')]"

definition name_class :: "(char \<times> char) list" where
  "name_class =
     [(CHR ''-'', CHR ''.''), (CHR ''0'', CHR ''9''), (CHR ''@'', CHR ''Z''),
      (CHR ''_'', CHR ''_''), (CHR ''a'', CHR ''z'')]"

definition name_pattern :: rx where
  "name_pattern = Rep (Cat (Cls alpha_class) (Rep (Cls name_class)))"

definition valid_name :: "string \<Rightarrow> bool" where
  "valid_name s = rx_match name_pattern s"

text \<open>
  The pattern as the specification writes it, \<^verbatim>\<open>^[\--\.0-9@-Z_a-z]*$\<close>: the second
  class repeated, without the group that starts with a letter.
\<close>

definition spec_name_pattern :: rx where
  "spec_name_pattern = Rep (Cls name_class)"

section \<open>Policy builders (client/model.go)\<close>

text \<open>
  The messages of \<open>policyv1\<close> that the builders fill, with the fields the builders and
  the validation read. Conditions, variables and schemas are carried by the builders
  unchanged and are left out.
\<close>

record ResourceRule_pb =
  RuleActions :: "string list"
  RuleEffect :: Effect
  RuleName :: string
  Roles :: "string list"
  DerivedRoles :: "string list"

record ResourcePolicy_pb =
  Resource :: string
  Version :: string
  Scope :: string
  ImportDerivedRoles :: "string list"
  Rules :: "ResourceRule_pb list"

record PrincipalRule_Action =
  Action :: string
  ActionEffect :: Effect

record PrincipalRule_pb =
  RuleResource :: string
  PrincipalActions :: "PrincipalRule_Action list"

record PrincipalPolicy_pb =
  Principal :: string
  PrincipalVersion :: string
  PrincipalScope :: string
  PrincipalRules :: "PrincipalRule_pb list"

record RoleDef =
  RoleName :: string
  ParentRoles :: "string list"

record DerivedRoles_pb =
  DerivedRolesName :: string
  Definitions :: "RoleDef list"

record ExportVariables_pb =
  ExportName :: string
  ExportDefinitions :: "(string \<times> string) list"

datatype PolicyType =
    Policy_ResourcePolicy ResourcePolicy_pb
  | Policy_PrincipalPolicy PrincipalPolicy_pb
  | Policy_DerivedRoles DerivedRoles_pb
  | Policy_ExportVariables ExportVariables_pb

record Policy =
  ApiVersion :: string
  PolicyType :: PolicyType

definition apiVersion :: string where
  "apiVersion = ''api.cerbos.dev/v1''"

subsection \<open>Validation\<close>

text \<open>
  Modelled from the spec: the patterns of the data model, which the validation code
  outside the sources applies. A version is \<^verbatim>\<open>^[A-Za-z0-9_]+$\<close>, a scope is empty or
  \<^verbatim>\<open>^([A-Za-z0-9][-A-Za-z0-9_]*)(\.[-A-Za-z0-9_]*)*$\<close>.
\<close>

definition version_pattern :: rx where
  "version_pattern =
     (let word = Cls [(CHR ''A'', CHR ''Z''), (CHR ''a'', CHR ''z''), (CHR ''0'', CHR ''9''),
                      (CHR ''_'', CHR ''_'')]
      in Cat word (Rep word))"

definition scope_pattern :: rx where
  "scope_pattern =
     (let first = Cls [(CHR ''A'', CHR ''Z''), (CHR ''a'', CHR ''z''), (CHR ''0'', CHR ''9'')];
          rest = Cls [(CHR ''-'', CHR ''-''), (CHR ''A'', CHR ''Z''), (CHR ''a'', CHR ''z''),
                      (CHR ''0'', CHR ''9''), (CHR ''_'', CHR ''_'')]
      in Cat (Cat first (Rep rest)) (Rep (Cat (Cls [(CHR ''.'', CHR ''.'')]) (Rep rest))))"

datatype ValidationError =
    InvalidApiVersion
  | InvalidResource
  | InvalidVersion
  | InvalidScope
  | InvalidRule
  | InvalidRoleDef

text \<open>
  Modelled from the spec: the \<open>actions\<close> of a resource rule are non-empty and unique
  and its effect is \<open>ALLOW\<close> or \<open>DENY\<close>.
\<close>

definition valid_ResourceRule :: "ResourceRule_pb \<Rightarrow> bool" where
  "valid_ResourceRule r =
     (RuleActions r \<noteq> [] \<and> distinct (RuleActions r)
      \<and> (RuleEffect r = EFFECT_ALLOW \<or> RuleEffect r = EFFECT_DENY))"

text \<open>
  Modelled from the spec: \<open>policy.Validate\<close> and the generated \<open>Policy.Validate\<close> it
  calls are not among the sources; only their test is. The checks are the invariants of
  the specification's data model: the \<open>apiVersion\<close> every policy has, the patterns of
  \<open>version\<close> and \<open>scope\<close>, the non-empty and unique \<open>actions\<close> of a resource rule
  with its effect \<open>ALLOW\<close> or \<open>DENY\<close>, the non-empty \<open>parentRoles\<close> of a role
  definition; the test adds that an empty resource name is an error.
\<close>

definition Validate :: "Policy \<Rightarrow> ValidationError option" where
  "Validate p =
     (if ApiVersion p \<noteq> ''api.cerbos.dev/v1'' then Some InvalidApiVersion
      else case PolicyType p of
        Policy_ResourcePolicy rp \<Rightarrow>
          (if Resource rp = [] then Some InvalidResource
           else if \<not> rx_match version_pattern (Version rp) then Some InvalidVersion
           else if Scope rp \<noteq> [] \<and> \<not> rx_match scope_pattern (Scope rp) then Some InvalidScope
           else if \<not> list_all valid_ResourceRule (Rules rp) then Some InvalidRule
           else None)
      | Policy_PrincipalPolicy pp \<Rightarrow>
          (if \<not> rx_match version_pattern (PrincipalVersion pp) then Some InvalidVersion
           else if PrincipalScope pp \<noteq> [] \<and> \<not> rx_match scope_pattern (PrincipalScope pp)
             then Some InvalidScope
           else None)
      | Policy_DerivedRoles dr \<Rightarrow>
          (if \<not> list_all (\<lambda>d. ParentRoles d \<noteq> []) (Definitions dr) then Some InvalidRoleDef
           else None)
      | Policy_ExportVariables ev \<Rightarrow> None)"

subsection \<open>build\<close>

text \<open>
  Each builder wraps the message it has filled into a \<open>Policy\<close> with the constant
  \<open>apiVersion\<close> and returns it together with the result of the validation.
\<close>

definition ResourcePolicy_build :: "ResourcePolicy_pb \<Rightarrow> Policy \<times> ValidationError option" where
  "ResourcePolicy_build rp =
     (let p = \<lparr>ApiVersion = apiVersion, PolicyType = Policy_ResourcePolicy rp\<rparr>
      in (p, Validate p))"

definition PrincipalPolicy_build :: "PrincipalPolicy_pb \<Rightarrow> Policy \<times> ValidationError option" where
  "PrincipalPolicy_build pp =
     (let p = \<lparr>ApiVersion = apiVersion, PolicyType = Policy_PrincipalPolicy pp\<rparr>
      in (p, Validate p))"

definition DerivedRoles_build :: "DerivedRoles_pb \<Rightarrow> Policy \<times> ValidationError option" where
  "DerivedRoles_build dr =
     (let p = \<lparr>ApiVersion = apiVersion, PolicyType = Policy_DerivedRoles dr\<rparr>
      in (p, Validate p))"

definition ExportVariables_build :: "ExportVariables_pb \<Rightarrow> Policy \<times> ValidationError option" where
  "ExportVariables_build ev =
     (let p = \<lparr>ApiVersion = apiVersion, PolicyType = Policy_ExportVariables ev\<rparr>
      in (p, Validate p))"

text \<open>\<open>NewResourcePolicy\<close> and \<open>NewPrincipalPolicy\<close>: the messages the builders start from.\<close>

definition NewResourcePolicy :: "string \<Rightarrow> string \<Rightarrow> ResourcePolicy_pb" where
  "NewResourcePolicy resource version =
     \<lparr>Resource = resource, Version = version, Scope = [], ImportDerivedRoles = [], Rules = []\<rparr>"

definition NewPrincipalPolicy :: "string \<Rightarrow> string \<Rightarrow> PrincipalPolicy_pb" where
  "NewPrincipalPolicy principalID version =
     \<lparr>Principal = principalID, PrincipalVersion = version, PrincipalScope = [],
      PrincipalRules = []\<rparr>"

section \<open>The decision engine\<close>

text \<open>
  Modelled from the spec: the engine, the compiled policies it reads and the policy
  store are not among the sources (its test cases are, as data files). The model
  follows the specification's sections on the condition evaluator, on the data model
  and on the decision state machine: the resolution order of principal policies,
  resource policies and the default, the scope chain, the activation of derived
  roles, the selection of rules and the policy identifier strings. Tracing, output
  expressions and cancellation do not change an effect and are left out.
\<close>

subsection \<open>Values, requests and conditions\<close>

text \<open>
  Modelled from the spec: the attribute values and the check input, with an absent
  policy version or scope written as the empty string.
\<close>

datatype Value =
    VNull
  | VBool bool
  | VNumber int
  | VString string
  | VList "Value list"
  | VMap "(string \<times> Value) list"

record PrincipalInput =
  principal_id :: string
  principal_policyVersion :: string
  principal_scope :: string
  principal_roles :: "string list"
  principal_attr :: "(string \<times> Value) list"

record ResourceInput =
  resource_kind :: string
  resource_id :: string
  resource_policyVersion :: string
  resource_scope :: string
  resource_attr :: "(string \<times> Value) list"

record CheckInput =
  requestId :: string
  principal :: PrincipalInput
  resource :: ResourceInput
  actions :: "string list"
  auxData :: "(string \<times> Value) list"

datatype EvaluationError = TypeMismatch | UnknownName | DivisionByZero

text \<open>
  Modelled from the spec: a compiled expression is a function of the request that
  yields a value or an evaluation error; the variables it names are resolved by the
  compiler. A \<open>Match\<close> is a tree over such expressions.
\<close>

type_synonym expr = "CheckInput \<Rightarrow> EvaluationError + Value"

datatype Match =
    MatchAll "Match list"
  | MatchAny "Match list"
  | MatchNone "Match list"
  | MatchExpr expr

text \<open>
  Modelled from the spec: \<open>all\<close> is a conjunction that stops at the first false,
  \<open>any\<close> a disjunction that stops at the first true, \<open>none\<close> the negation of that
  disjunction; an expression must yield a boolean, anything else is a typed error.
\<close>

fun eval_Match :: "CheckInput \<Rightarrow> Match \<Rightarrow> EvaluationError + bool"
  and eval_all :: "CheckInput \<Rightarrow> Match list \<Rightarrow> EvaluationError + bool"
  and eval_any :: "CheckInput \<Rightarrow> Match list \<Rightarrow> EvaluationError + bool" where
  "eval_Match req (MatchAll ms) = eval_all req ms"
| "eval_Match req (MatchAny ms) = eval_any req ms"
| "eval_Match req (MatchNone ms) =
     (case eval_any req ms of Inl e \<Rightarrow> Inl e | Inr b \<Rightarrow> Inr (\<not> b))"
| "eval_Match req (MatchExpr e) =
     (case e req of
        Inl er \<Rightarrow> Inl er
      | Inr (VBool b) \<Rightarrow> Inr b
      | Inr _ \<Rightarrow> Inl TypeMismatch)"
| "eval_all req [] = Inr True"
| "eval_all req (m # ms) =
     (case eval_Match req m of
        Inl e \<Rightarrow> Inl e
      | Inr b \<Rightarrow> if b then eval_all req ms else Inr False)"
| "eval_any req [] = Inr False"
| "eval_any req (m # ms) =
     (case eval_Match req m of
        Inl e \<Rightarrow> Inl e
      | Inr b \<Rightarrow> if b then Inr True else eval_any req ms)"

text \<open>
  Modelled from the spec: a rule without a condition applies; a condition that fails
  with an error makes the rule non-matching.
\<close>

definition condition_holds :: "CheckInput \<Rightarrow> Match option \<Rightarrow> bool" where
  "condition_holds req cond =
     (case cond of None \<Rightarrow> True | Some m \<Rightarrow> eval_Match req m = Inr True)"

subsection \<open>Action globs\<close>

text \<open>
  Modelled from the spec: an action or resource pattern is a literal or a glob, where
  \<open>*\<close> stands for any run of characters, \<open>?\<close> for any one character and a bracketed
  class for one character of its ranges. The class syntax is not given by the
  specification; the model reads \<open>[\<close> ranges \<open>]\<close> with \<open>a-z\<close> for a range and takes a
  \<open>[\<close> without a closing \<open>]\<close> as a literal.
\<close>

datatype glob_token = Lit char | AnyRun | AnyOne | OneOf "(char \<times> char) list"

fun class_ranges :: "string \<Rightarrow> (char \<times> char) list" where
  "class_ranges (lo # d # hi # cs) =
     (if d = CHR ''-'' then (lo, hi) # class_ranges cs else (lo, lo) # class_ranges (d # hi # cs))"
| "class_ranges (c # cs) = (c, c) # class_ranges cs"
| "class_ranges [] = []"

function compile_glob :: "string \<Rightarrow> glob_token list" where
  "compile_glob [] = []"
| "compile_glob (c # cs) =
     (if c = CHR ''*'' then AnyRun # compile_glob cs
      else if c = CHR ''?'' then AnyOne # compile_glob cs
      else if c = CHR ''['' \<and> CHR '']'' \<in> set cs
        then OneOf (class_ranges (takeWhile (\<lambda>d. d \<noteq> CHR '']'') cs))
               # compile_glob (tl (dropWhile (\<lambda>d. d \<noteq> CHR '']'') cs))
      else Lit c # compile_glob cs)"
  by pat_completeness auto
termination
proof (relation "measure length")
  fix c :: char and cs :: string
  have "length (dropWhile (\<lambda>d. d \<noteq> CHR '']'') cs) \<le> length cs"
    by (rule length_dropWhile_le)
  then show "(tl (dropWhile (\<lambda>d. d \<noteq> CHR '']'') cs), c # cs) \<in> measure length"
    by simp
qed simp_all

fun match_tokens :: "glob_token list \<Rightarrow> string \<Rightarrow> bool" where
  "match_tokens [] s = (s = [])"
| "match_tokens (Lit c # ts) [] = False"
| "match_tokens (Lit c # ts) (d # s) = (c = d \<and> match_tokens ts s)"
| "match_tokens (AnyOne # ts) [] = False"
| "match_tokens (AnyOne # ts) (d # s) = match_tokens ts s"
| "match_tokens (OneOf ranges # ts) [] = False"
| "match_tokens (OneOf ranges # ts) (d # s) = (in_class ranges d \<and> match_tokens ts s)"
| "match_tokens (AnyRun # ts) [] = match_tokens ts []"
| "match_tokens (AnyRun # ts) (d # s) =
     (match_tokens ts (d # s) \<or> match_tokens (AnyRun # ts) s)"

definition matches :: "string \<Rightarrow> string \<Rightarrow> bool" where
  "matches s glob = match_tokens (compile_glob glob) s"

subsection \<open>Compiled policies and the store\<close>

text \<open>
  Modelled from the spec: the compilation units the engine reads, with the fields of
  the data model. A role definition carries its parent roles and its condition, a
  resource rule its action globs, roles, derived roles, condition and effect, a
  principal rule a resource glob and its actions in declaration order.
\<close>

record CompiledRoleDef =
  def_name :: string
  def_parentRoles :: "string list"
  def_condition :: "Match option"

record CompiledDerivedRoles =
  roles_name :: string
  roles_definitions :: "CompiledRoleDef list"

record CompiledResourceRule =
  rule_actions :: "string list"
  rule_roles :: "string list"
  rule_derivedRoles :: "string list"
  rule_condition :: "Match option"
  rule_effect :: Effect

record CompiledResourcePolicy =
  rp_resource :: string
  rp_version :: string
  rp_scope :: string
  rp_importDerivedRoles :: "string list"
  rp_schemas :: "(CheckInput \<Rightarrow> bool) option"
  rp_rules :: "CompiledResourceRule list"

record CompiledPrincipalAction =
  pa_action :: string
  pa_effect :: Effect
  pa_condition :: "Match option"

record CompiledPrincipalRule =
  pr_resource :: string
  pr_actions :: "CompiledPrincipalAction list"

record CompiledPrincipalPolicy =
  pp_principal :: string
  pp_version :: string
  pp_scope :: string
  pp_rules :: "CompiledPrincipalRule list"

datatype SchemaValidation = SchemaNone | SchemaWarn | SchemaError

record Store =
  principal_policies :: "CompiledPrincipalPolicy list"
  resource_policies :: "CompiledResourcePolicy list"
  derived_roles :: "CompiledDerivedRoles list"
  defaultPolicyVersion :: string
  schemaValidation :: SchemaValidation

record ActionResult =
  effect :: Effect
  policy :: string
  scope :: string

subsection \<open>Scopes and policy identifiers\<close>

text \<open>
  Modelled from the spec: for the scope \<open>a.b.c\<close> the chain is \<open>a.b.c\<close>, \<open>a.b\<close>,
  \<open>a\<close> and the root scope, which is the empty string.
\<close>

definition scope_chain :: "string \<Rightarrow> string list" where
  "scope_chain s =
     (if s = [] then [[]]
      else map (\<lambda>n. take n s)
             (rev (filter (\<lambda>i. s ! i = CHR ''.'') [0..<length s] @ [length s])) @ [[]])"

text \<open>
  Modelled from the spec: a request without a policy version uses the configured
  default; a policy identifier is \<open>principal.<id>.v<version>\<close> or
  \<open>resource.<kind>.v<version>\<close>, followed by \<open>/<scope>\<close> when the scope is not
  empty; a policy is found by its identity.
\<close>

definition version_or_default :: "Store \<Rightarrow> string \<Rightarrow> string" where
  "version_or_default st v = (if v = [] then defaultPolicyVersion st else v)"

definition scope_suffix :: "string \<Rightarrow> string" where
  "scope_suffix sc = (if sc = [] then [] else ''/'' @ sc)"

definition principal_policy_id :: "string \<Rightarrow> string \<Rightarrow> string \<Rightarrow> string" where
  "principal_policy_id pid v sc = ''principal.'' @ pid @ ''.v'' @ v @ scope_suffix sc"

definition resource_policy_id :: "string \<Rightarrow> string \<Rightarrow> string \<Rightarrow> string" where
  "resource_policy_id k v sc = ''resource.'' @ k @ ''.v'' @ v @ scope_suffix sc"

definition lookup_principal_policy ::
  "Store \<Rightarrow> string \<Rightarrow> string \<Rightarrow> string \<Rightarrow> CompiledPrincipalPolicy option" where
  "lookup_principal_policy st pid v sc =
     find (\<lambda>pp. pp_principal pp = pid \<and> pp_version pp = v \<and> pp_scope pp = sc)
       (principal_policies st)"

definition lookup_resource_policy ::
  "Store \<Rightarrow> string \<Rightarrow> string \<Rightarrow> string \<Rightarrow> CompiledResourcePolicy option" where
  "lookup_resource_policy st k v sc =
     find (\<lambda>rp. rp_resource rp = k \<and> rp_version rp = v \<and> rp_scope rp = sc)
       (resource_policies st)"

subsection \<open>Principal policies\<close>

text \<open>
  Modelled from the spec: of the rules whose resource glob matches the kind of the
  resource, the actions are tried in declaration order; the first whose glob matches
  the action and whose condition holds gives the effect.
\<close>

fun first_principal_action ::
  "CheckInput \<Rightarrow> string \<Rightarrow> CompiledPrincipalAction list \<Rightarrow> Effect option" where
  "first_principal_action req a [] = None"
| "first_principal_action req a (pa # pas) =
     (if matches a (pa_action pa) \<and> condition_holds req (pa_condition pa)
      then Some (pa_effect pa)
      else first_principal_action req a pas)"

fun first_principal_rule ::
  "CheckInput \<Rightarrow> string \<Rightarrow> CompiledPrincipalRule list \<Rightarrow> Effect option" where
  "first_principal_rule req a [] = None"
| "first_principal_rule req a (r # rs) =
     (if matches (resource_kind (resource req)) (pr_resource r)
      then (case first_principal_action req a (pr_actions r) of
              Some e \<Rightarrow> Some e
            | None \<Rightarrow> first_principal_rule req a rs)
      else first_principal_rule req a rs)"

text \<open>
  Modelled from the spec: the walk starts at the scope of the principal and goes
  toward the root; a scope without a policy is skipped, and the first scope at which
  a rule matches decides, whether it allows or denies.
\<close>

fun principal_walk ::
  "Store \<Rightarrow> CheckInput \<Rightarrow> string \<Rightarrow> string list \<Rightarrow> ActionResult option" where
  "principal_walk st req a [] = None"
| "principal_walk st req a (sc # scs) =
     (let pid = principal_id (principal req);
          v = version_or_default st (principal_policyVersion (principal req))
      in case lookup_principal_policy st pid v sc of
           None \<Rightarrow> principal_walk st req a scs
         | Some pp \<Rightarrow>
             (case first_principal_rule req a (pp_rules pp) of
                Some e \<Rightarrow> Some \<lparr>effect = e, policy = principal_policy_id pid v sc, scope = sc\<rparr>
              | None \<Rightarrow> principal_walk st req a scs))"

subsection \<open>Resource policies and derived roles\<close>

text \<open>Modelled from the spec: two lists of role names that share a name.\<close>

definition intersects :: "string list \<Rightarrow> string list \<Rightarrow> bool" where
  "intersects xs ys = list_ex (\<lambda>x. x \<in> set ys) xs"

text \<open>
  Modelled from the spec: a derived role of an imported set is activated when one of
  its parent roles is a role of the principal and its condition, if any, holds.
\<close>

definition activated :: "CheckInput \<Rightarrow> CompiledRoleDef \<Rightarrow> bool" where
  "activated req d =
     (intersects (def_parentRoles d) (principal_roles (principal req))
      \<and> condition_holds req (def_condition d))"

definition imported_definitions :: "Store \<Rightarrow> CompiledResourcePolicy \<Rightarrow> CompiledRoleDef list" where
  "imported_definitions st rp =
     concat (map roles_definitions
       (filter (\<lambda>dr. roles_name dr \<in> set (rp_importDerivedRoles rp)) (derived_roles st)))"

definition effectiveDerivedRoles ::
  "Store \<Rightarrow> CheckInput \<Rightarrow> CompiledResourcePolicy \<Rightarrow> string list" where
  "effectiveDerivedRoles st req rp =
     remdups (map def_name (filter (activated req) (imported_definitions st rp)))"

text \<open>
  Modelled from the spec: a rule applies when the action matches one of its globs,
  the roles of the principal together with the effective derived roles meet the
  roles and derived roles of the rule, and its condition, if any, holds. The first
  rule that applies gives the effect.
\<close>

definition rule_applies ::
  "CheckInput \<Rightarrow> string \<Rightarrow> string list \<Rightarrow> CompiledResourceRule \<Rightarrow> bool" where
  "rule_applies req a edr r =
     (list_ex (matches a) (rule_actions r)
      \<and> intersects (principal_roles (principal req) @ edr) (rule_roles r @ rule_derivedRoles r)
      \<and> condition_holds req (rule_condition r))"

definition first_resource_rule ::
  "CheckInput \<Rightarrow> string \<Rightarrow> string list \<Rightarrow> CompiledResourceRule list \<Rightarrow> Effect option" where
  "first_resource_rule req a edr rs = map_option rule_effect (find (rule_applies req a edr) rs)"

text \<open>
  Modelled from the spec: when the matched resource policy declares schemas and the
  attributes fail them, the mode \<open>error\<close> turns the effect into a deny; the modes
  \<open>warn\<close> and \<open>none\<close> leave it.
\<close>

definition after_schemas :: "Store \<Rightarrow> CheckInput \<Rightarrow> CompiledResourcePolicy \<Rightarrow> Effect \<Rightarrow> Effect" where
  "after_schemas st req rp e =
     (case rp_schemas rp of
        None \<Rightarrow> e
      | Some valid \<Rightarrow>
          if schemaValidation st = SchemaError \<and> \<not> valid req then EFFECT_DENY else e)"

fun resource_walk ::
  "Store \<Rightarrow> CheckInput \<Rightarrow> string \<Rightarrow> string list \<Rightarrow> ActionResult option" where
  "resource_walk st req a [] = None"
| "resource_walk st req a (sc # scs) =
     (let k = resource_kind (resource req);
          v = version_or_default st (resource_policyVersion (resource req))
      in case lookup_resource_policy st k v sc of
           None \<Rightarrow> resource_walk st req a scs
         | Some rp \<Rightarrow>
             (case first_resource_rule req a (effectiveDerivedRoles st req rp) (rp_rules rp) of
                Some e \<Rightarrow>
                  Some \<lparr>effect = after_schemas st req rp e,
                        policy = resource_policy_id k v sc, scope = sc\<rparr>
              | None \<Rightarrow> resource_walk st req a scs))"

subsection \<open>The decision\<close>

text \<open>
  Modelled from the spec: the resolution order for an action is the principal
  policies, then the resource policies, then the default, a deny under the policy
  identifier \<open>NO_MATCH\<close>.
\<close>

definition check_action :: "Store \<Rightarrow> CheckInput \<Rightarrow> string \<Rightarrow> ActionResult" where
  "check_action st req a =
     (case principal_walk st req a (scope_chain (principal_scope (principal req))) of
        Some r \<Rightarrow> r
      | None \<Rightarrow>
          (case resource_walk st req a (scope_chain (resource_scope (resource req))) of
             Some r \<Rightarrow> r
           | None \<Rightarrow> \<lparr>effect = EFFECT_DENY, policy = ''NO_MATCH'', scope = []\<rparr>))"

text \<open>Modelled from the spec: the response holds one result for each action of the input.\<close>

definition check :: "Store \<Rightarrow> CheckInput \<Rightarrow> (string \<times> ActionResult) list" where
  "check st req = map (\<lambda>a. (a, check_action st req a)) (actions req)"

subsection \<open>The request of the principal-policy scenario\<close>

text \<open>
  The first input of the engine test case "Donald Duck tries to view and approve a
  production leave request and a dev leave request".
\<close>

definition donald_duck_request :: CheckInput where
  "donald_duck_request =
     \<lparr>requestId = ''test1'',
      principal =
        \<lparr>principal_id = ''donald_duck'', principal_policyVersion = ''20210210'',
         principal_scope = [], principal_roles = [''employee''],
         principal_attr =
           [(''department'', VString ''marketing''), (''geography'', VString ''GB''),
            (''team'', VString ''design''), (''managed_geographies'', VString ''GB'')]\<rparr>,
      resource =
        \<lparr>resource_kind = ''leave_request'', resource_id = ''XX125'',
         resource_policyVersion = ''20210210'', resource_scope = [],
         resource_attr =
           [(''department'', VString ''marketing''), (''geography'', VString ''GB''),
            (''id'', VString ''XX125''), (''owner'', VString ''john''),
            (''team'', VString ''design''), (''status'', VString ''PENDING_APPROVAL''),
            (''dev_record'', VBool True)]\<rparr>,
      actions = [''approve'', ''view:public''],
      auxData = []\<rparr>"

text \<open>
  Modelled from the spec: the principal policy of \<open>donald_duck\<close>, which explicitly
  allows \<open>approve\<close> and \<open>view:public\<close> on \<open>leave_request\<close>; its version is the one
  of the policy identifier the scenario expects. The specification does not say under
  which condition the policy allows (the second input of the test case, the same request
  for a resource without \<open>dev_record\<close>, is decided by the resource policy), so the
  condition is a parameter of the policy.
\<close>

definition donald_duck_policy :: "Match option \<Rightarrow> CompiledPrincipalPolicy" where
  "donald_duck_policy cond =
     \<lparr>pp_principal = ''donald_duck'', pp_version = ''20210210'', pp_scope = [],
      pp_rules =
        [\<lparr>pr_resource = ''leave_request'',
          pr_actions =
            [\<lparr>pa_action = ''approve'', pa_effect = EFFECT_ALLOW, pa_condition = cond\<rparr>,
             \<lparr>pa_action = ''view:public'', pa_effect = EFFECT_ALLOW, pa_condition = cond\<rparr>]\<rparr>]\<rparr>"

text \<open>The expression \<open>request.resource.attr.dev_record == true\<close>.\<close>

definition dev_record_is_true :: expr where
  "dev_record_is_true req =
     (case map_of (resource_attr (resource req)) ''dev_record'' of
        None \<Rightarrow> Inl UnknownName
      | Some v \<Rightarrow> Inr (VBool (v = VBool True)))"

text \<open>A store in which a resource policy would deny what the principal policy allows.\<close>

definition example_store :: Store where
  "example_store =
     \<lparr>principal_policies = [donald_duck_policy (Some (MatchExpr dev_record_is_true))],
      resource_policies =
        [\<lparr>rp_resource = ''leave_request'', rp_version = ''20210210'', rp_scope = [],
          rp_importDerivedRoles = [], rp_schemas = None,
          rp_rules =
            [\<lparr>rule_actions = [''*''], rule_roles = [''employee''], rule_derivedRoles = [],
              rule_condition = None, rule_effect = EFFECT_DENY\<rparr>]\<rparr>],
      derived_roles = [],
      defaultPolicyVersion = ''default'',
      schemaValidation = SchemaWarn\<rparr>"

section \<open>Properties of the response accessors\<close>



text \<open>A \<open>nil\<close> entry anywhere in \<open>Results\<close> stops the loop of \<open>buildIdx\<close>.\<close>

lemma buildIdx_loop_None:
  "None \<in> set rs \<Longrightarrow> fst (buildIdx_loop i rs m) = Some NilPointerDereference"
proof (induction rs arbitrary: i m)
  case Nil
  then show ?case by simp
next
  case (Cons r rs)
  then show ?case by (cases r) auto
qed









text \<open>
  The first call on a response with a \<open>nil\<close> entry panics in \<open>buildIdx\<close>, whatever is
  asked: the \<open>nil\<close> test in the loop of \<open>IsAllowed\<close> is not reached. The \<open>Once\<close> is
  done all the same, so a later call, made after the panic has been recovered, answers
  from the part of the index that was written before the \<open>nil\<close> entry.
\<close>

lemma batch_nil_entry_first_call:
  assumes "\<not> once_done crbr" and "BatchResponse crbr = Some pb" and "None \<in> set (Results pb)"
  shows "fst (CheckResourceBatchResponse_IsAllowed crbr k a) = Inl NilPointerDereference"
proof -
  obtain p m where l: "buildIdx_loop 0 (Results pb) Map.empty = (p, m)"
    by (cases "buildIdx_loop 0 (Results pb) Map.empty")
  with buildIdx_loop_None [OF assms(3), of 0 Map.empty] have "p = Some NilPointerDereference"
    by simp
  with assms(1,2) l show ?thesis
    by (simp add: CheckResourceBatchResponse_IsAllowed_def buildIdx_def)
qed

lemma batch_nil_entry_calls:
  "fst (CheckResourceBatchResponse_IsAllowed nil_entry_batch ''XX125'' ''approve'')
     = Inl NilPointerDereference
   \<and> fst (CheckResourceBatchResponse_IsAllowed
        (snd (CheckResourceBatchResponse_IsAllowed nil_entry_batch ''XX125'' ''approve''))
        ''XX125'' ''approve'') = Inr False
   \<and> fst (CheckResourceBatchResponse_IsAllowed allow_then_nil_batch ''XX125'' ''approve'')
     = Inl NilPointerDereference
   \<and> fst (CheckResourceBatchResponse_IsAllowed
        (snd (CheckResourceBatchResponse_IsAllowed allow_then_nil_batch ''XX125'' ''approve''))
        ''XX125'' ''approve'') = Inr True"
  by (simp add: nil_entry_batch_def allow_then_nil_batch_def fresh_batch_def
      CheckResourceBatchResponse_IsAllowed_def buildIdx_def)




section \<open>Properties of the Match schema\<close>

lemma oneOf4:
  "oneOf [a, b, c, d] \<longleftrightarrow>
     (a \<and> \<not> b \<and> \<not> c \<and> \<not> d) \<or> (\<not> a \<and> b \<and> \<not> c \<and> \<not> d)
   \<or> (\<not> a \<and> \<not> b \<and> c \<and> \<not> d) \<or> (\<not> a \<and> \<not> b \<and> \<not> c \<and> d)"
  by (auto simp: oneOf_def)

lemma required_object: "required [k] (JObject kvs) = has_key k (JObject kvs)"
  by (simp add: required_def)

lemma valid_Match_variants: "valid_Match v \<Longrightarrow> length (variants_set v) = 1"
  by (cases v) (auto simp: variants_set_def oneOf4 required_object)

lemma valid_of_array: "valid_of y \<Longrightarrow> type_array y \<and> 1 \<le> length (items_of y)"
  by (cases y) auto

lemma valid_ExprList_nonempty_of: "valid_ExprList x \<Longrightarrow> nonempty_of x"
proof (cases x)
  case (JObject kvs)
  assume "valid_ExprList x"
  with JObject show ?thesis
    using valid_of_array
    by (fastforce simp: required_object no_additionalProperties_def nonempty_of_def)
qed auto

lemma valid_Match_members:
  assumes "valid_Match v" and "(k, x) \<in> set (members v)" and "k \<in> {''all'', ''any'', ''none''}"
  shows "valid_ExprList x"
  using assms by (cases v) auto

lemma example_match_valid: "valid_Match example_match"
  by (simp add: example_match_def oneOf_def required_def has_key_def no_additionalProperties_def)

text \<open>
  Claim C7. Every JSON value that the schema \<open>cerbos.policy.v1.Match\<close> accepts has
  exactly one of the keys \<open>all\<close>, \<open>any\<close>, \<open>none\<close>, \<open>expr\<close>, and the value under
  \<open>all\<close>, \<open>any\<close> or \<open>none\<close> is an object whose \<open>of\<close> is present and is an array of
  at least one element.
\<close>

theorem Match_exactly_one_variant:
  assumes "valid_Match v"
  shows "length (variants_set v) = 1 \<and>
         (\<forall>(k, x) \<in> set (members v). k \<in> {''all'', ''any'', ''none''} \<longrightarrow> nonempty_of x)"
  using valid_Match_variants [OF assms] valid_Match_members [OF assms] valid_ExprList_nonempty_of
  by blast

theorem Match_exactly_one_variant_witness:
  "valid_Match example_match \<and> variants_set example_match = [''all'']
   \<and> nonempty_of (snd (hd (members example_match)))"
proof -
  have m: "members example_match = [(''all'', snd (hd (members example_match)))]"
    by (simp add: example_match_def)
  have "\<forall>(k, x) \<in> set (members example_match). k \<in> {''all'', ''any'', ''none''} \<longrightarrow> nonempty_of x"
    using Match_exactly_one_variant [OF example_match_valid] by (rule conjunct2)
  then have "nonempty_of (snd (hd (members example_match)))"
    by (subst (asm) m) simp
  moreover have "variants_set example_match = [''all'']"
    by (simp add: variants_set_def example_match_def has_key_def)
  ultimately show ?thesis
    using example_match_valid by simp
qed

section \<open>Properties of the name pattern\<close>

lemma seqs_Cons:
  "c # s \<in> seqs A B \<longleftrightarrow> (\<exists>u v. s = u @ v \<and> c # u \<in> A \<and> v \<in> B) \<or> ([] \<in> A \<and> c # s \<in> B)"
  unfolding seqs_def by (auto simp: Cons_eq_append_conv)

lemma seqs_Nil: "[] \<in> seqs A B \<longleftrightarrow> [] \<in> A \<and> [] \<in> B"
  unfolding seqs_def by auto

lemma reps_Cons_split:
  assumes "x \<in> reps A" and "x = c # s"
  shows "\<exists>u v. s = u @ v \<and> c # u \<in> A \<and> v \<in> reps A"
  using assms
proof (induction arbitrary: s)
  case reps_none
  then show ?case by simp
next
  case (reps_more u v)
  show ?case
  proof (cases u)
    case Nil
    with reps_more show ?thesis by simp
  next
    case (Cons d u')
    with reps_more.prems have "d = c" and "s = u' @ v" by simp_all
    with Cons reps_more.hyps show ?thesis by blast
  qed
qed

lemma reps_Cons:
  "c # s \<in> reps A \<longleftrightarrow> (\<exists>u v. s = u @ v \<and> c # u \<in> A \<and> v \<in> reps A)"
proof
  assume "c # s \<in> reps A"
  then show "\<exists>u v. s = u @ v \<and> c # u \<in> A \<and> v \<in> reps A"
    by (rule reps_Cons_split) simp
next
  assume "\<exists>u v. s = u @ v \<and> c # u \<in> A \<and> v \<in> reps A"
  then obtain u v where "s = u @ v" "c # u \<in> A" "v \<in> reps A" by blast
  then show "c # s \<in> reps A"
    using reps_more [of "c # u" A v] by simp
qed

lemma accepts_empty_lang: "accepts_empty r \<longleftrightarrow> [] \<in> lang r"
  by (induction r) (auto simp: seqs_Nil intro: reps_none)

lemma seqs_iff: "w \<in> seqs A B \<longleftrightarrow> (\<exists>u v. w = u @ v \<and> u \<in> A \<and> v \<in> B)"
  unfolding seqs_def by auto

lemma after_lang: "s \<in> lang (after c r) \<longleftrightarrow> c # s \<in> lang r"
proof (induction r arbitrary: s)
  case (Cat r1 r2)
  have split: "s \<in> seqs (lang (after c r1)) (lang r2) \<longleftrightarrow>
      (\<exists>u v. s = u @ v \<and> c # u \<in> lang r1 \<and> v \<in> lang r2)"
    by (simp add: seqs_iff Cat.IH)
  show ?case
    by (simp add: seqs_Cons accepts_empty_lang split Cat.IH)
next
  case (Rep r)
  have "s \<in> seqs (lang (after c r)) (reps (lang r)) \<longleftrightarrow>
      (\<exists>u v. s = u @ v \<and> c # u \<in> lang r \<and> v \<in> reps (lang r))"
    by (simp add: seqs_iff Rep.IH)
  then show ?case
    by (simp add: reps_Cons)
qed auto

lemma rx_match_lang: "rx_match r s \<longleftrightarrow> s \<in> lang r"
  by (induction s arbitrary: r) (simp_all add: accepts_empty_lang after_lang)


lemma reps_singletons: "reps {[c] | c. P c} = {s. list_all P s}"
proof (intro set_eqI iffI)
  fix s assume "s \<in> reps {[c] | c. P c}"
  then have "list_all P s" by induction auto
  then show "s \<in> {s. list_all P s}" by simp
next
  fix s assume "s \<in> {s. list_all P s}"
  then have "list_all P s" by simp
  then show "s \<in> reps {[c] | c. P c}"
  proof (induction s)
    case Nil
    show ?case by (rule reps_none)
  next
    case (Cons c s)
    then have "[c] \<in> {[c] | c. P c}" and "s \<in> reps {[c] | c. P c}" by auto
    then have "[c] @ s \<in> reps {[c] | c. P c}" by (rule reps_more)
    then show ?case by simp
  qed
qed

lemma alpha_is_name: "in_class alpha_class c \<Longrightarrow> in_class name_class c"
  by (auto simp: in_class_def alpha_class_def name_class_def)

lemma lang_name_block:
  "lang (Cat (Cls alpha_class) (Rep (Cls name_class))) =
     {c # t | c t. in_class alpha_class c \<and> list_all (in_class name_class) t}"
  (is "?L = ?R")
proof (intro set_eqI iffI)
  fix w assume "w \<in> ?L"
  then obtain u v where "w = u @ v" "u \<in> {[c] | c. in_class alpha_class c}"
    "list_all (in_class name_class) v"
    by (auto simp: reps_singletons seqs_iff)
  then obtain c where "w = c # v" "in_class alpha_class c" by auto
  with \<open>list_all (in_class name_class) v\<close> show "w \<in> ?R" by blast
next
  fix w assume "w \<in> ?R"
  then obtain c t where w: "w = [c] @ t" and c: "in_class alpha_class c"
    and t: "list_all (in_class name_class) t" by auto
  have "[c] \<in> lang (Cls alpha_class)" using c by simp
  moreover have "t \<in> lang (Rep (Cls name_class))" using t by (simp add: reps_singletons)
  ultimately show "w \<in> ?L" unfolding w lang.simps(4) seqs_iff by blast
qed

lemma reps_name_blocks:
  "s \<in> reps {c # t | c t. in_class alpha_class c \<and> list_all (in_class name_class) t} \<longleftrightarrow>
     s = [] \<or> (in_class alpha_class (hd s) \<and> list_all (in_class name_class) s)"
  (is "s \<in> reps ?B \<longleftrightarrow> ?R s")
proof
  assume "s \<in> reps ?B"
  then show "?R s"
  proof (induction)
    case reps_none
    show ?case by simp
  next
    case (reps_more u v)
    then obtain c t where u: "u = c # t" and c: "in_class alpha_class c"
      and t: "list_all (in_class name_class) t" by blast
    from reps_more.IH have "list_all (in_class name_class) v" by auto
    with u c t show ?case by (simp add: alpha_is_name)
  qed
next
  assume r: "?R s"
  show "s \<in> reps ?B"
  proof (cases s)
    case Nil
    then show ?thesis by (simp add: reps_none)
  next
    case (Cons c t)
    with r have "c # t \<in> ?B" by auto
    then have "(c # t) @ [] \<in> reps ?B" using reps_none by (rule reps_more)
    with Cons show ?thesis by simp
  qed
qed

lemma valid_name_chars:
  "valid_name s \<longleftrightarrow> s = [] \<or> (in_class alpha_class (hd s) \<and> list_all (in_class name_class) s)"
  unfolding valid_name_def name_pattern_def rx_match_lang
  using reps_name_blocks [of s] by (simp only: lang.simps(6) lang_name_block)

lemma spec_name_pattern_chars:
  "rx_match spec_name_pattern s \<longleftrightarrow> list_all (in_class name_class) s"
  by (simp add: spec_name_pattern_def rx_match_lang reps_singletons)

text \<open>
  Claim C9, as amended. The pattern that the schema gives \<open>ResourceRule.name\<close> is
  \<^verbatim>\<open>^([A-Za-z][\--\.0-9@-Z_a-z]*)*$\<close>: a string is accepted as a rule name exactly
  when it is empty, or starts with a letter of \<open>A-Z\<close>, \<open>a-z\<close> and consists of
  characters of \<open>-\<close>, \<open>.\<close>, \<open>0-9\<close>, \<open>@\<close>, \<open>A-Z\<close>, \<open>_\<close>, \<open>a-z\<close>. The empty name is
  accepted.
\<close>

theorem ResourceRule_name_accepted:
  "(valid_name s \<longleftrightarrow>
      s = [] \<or> (in_class alpha_class (hd s) \<and> list_all (in_class name_class) s))
   \<and> valid_name []"
  using valid_name_chars [of s] valid_name_chars [of "[]"] by simp

theorem ResourceRule_name_accepted_witness:
  "valid_name ''allow-view.v1'' \<and> \<not> valid_name ''allow view'' \<and> valid_name []"
  using ResourceRule_name_accepted [of "''allow-view.v1''"]
    ResourceRule_name_accepted [of "''allow view''"]
  by (simp add: alpha_class_def name_class_def in_class_def)

text \<open>
  The pattern of the claim, \<^verbatim>\<open>^[\--\.0-9@-Z_a-z]*$\<close>, accepts names that the schema's
  pattern rejects: any non-empty string of class characters that does not start with a
  letter.
\<close>

theorem ResourceRule_name_counterexample:
  "rx_match spec_name_pattern ''1st-rule'' \<and> \<not> valid_name ''1st-rule''"
  by code_simp

section \<open>Properties of the builders\<close>

text \<open>
  Claim C8. Every policy that \<open>build\<close> of the four builders returns carries the
  \<open>apiVersion\<close> \<open>api.cerbos.dev/v1\<close>, whatever the builder holds and whether or not
  the validation accepts it, and the validation reports an error for every policy whose
  \<open>apiVersion\<close> is any other string.
\<close>

theorem apiVersion_invariant:
  "ApiVersion (fst (ResourcePolicy_build rp)) = ''api.cerbos.dev/v1''
   \<and> ApiVersion (fst (PrincipalPolicy_build pp)) = ''api.cerbos.dev/v1''
   \<and> ApiVersion (fst (DerivedRoles_build dr)) = ''api.cerbos.dev/v1''
   \<and> ApiVersion (fst (ExportVariables_build ev)) = ''api.cerbos.dev/v1''
   \<and> (ApiVersion p \<noteq> ''api.cerbos.dev/v1'' \<longrightarrow> Validate p \<noteq> None)"
  by (simp add: ResourcePolicy_build_def PrincipalPolicy_build_def DerivedRoles_build_def
      ExportVariables_build_def apiVersion_def Validate_def Let_def)

text \<open>
  The policy the resource policy builder returns for \<open>leave_request\<close> is valid, and
  the same policy with the \<open>apiVersion\<close> \<open>something\<close> of the test is not.
\<close>

theorem apiVersion_invariant_witness:
  "ApiVersion (fst (ResourcePolicy_build (NewResourcePolicy ''leave_request'' ''20210210'')))
     = ''api.cerbos.dev/v1''
   \<and> snd (ResourcePolicy_build (NewResourcePolicy ''leave_request'' ''20210210'')) = None
   \<and> Validate ((fst (ResourcePolicy_build (NewResourcePolicy ''leave_request'' ''20210210'')))
        \<lparr>ApiVersion := ''something''\<rparr>) = Some InvalidApiVersion"
proof -
  let ?p = "(fst (ResourcePolicy_build (NewResourcePolicy ''leave_request'' ''20210210'')))
        \<lparr>ApiVersion := ''something''\<rparr>"
  have bad: "ApiVersion ?p \<noteq> ''api.cerbos.dev/v1''" by simp
  have "Validate ?p \<noteq> None"
    using apiVersion_invariant [of _ _ _ _ ?p] bad by blast
  moreover have "Validate ?p = Some InvalidApiVersion \<or> Validate ?p = None"
    by (simp add: Validate_def)
  moreover have "snd (ResourcePolicy_build (NewResourcePolicy ''leave_request'' ''20210210'')) = None"
    by code_simp
  ultimately show ?thesis
    using apiVersion_invariant [of "NewResourcePolicy ''leave_request'' ''20210210''"] by auto
qed

section \<open>Properties of the engine\<close>

text \<open>The globs of the specification's own examples.\<close>

lemma action_glob_examples:
  "matches ''view:public'' ''view:*'' \<and> matches ''approve'' ''*''
   \<and> \<not> matches ''approve'' ''view:*''"
  by (simp add: matches_def)

lemma example_store_lookup:
  "lookup_principal_policy example_store ''donald_duck'' ''20210210'' [] =
     Some (donald_duck_policy (Some (MatchExpr dev_record_is_true)))"
  by (simp add: lookup_principal_policy_def example_store_def donald_duck_policy_def)

lemma dev_record_holds:
  "condition_holds donald_duck_request (Some (MatchExpr dev_record_is_true))"
  by (simp add: condition_holds_def dev_record_is_true_def donald_duck_request_def)

text \<open>
  Claim C1. For the request of \<open>donald_duck\<close> (policy version \<open>20210210\<close>, role
  \<open>employee\<close>) on the \<open>leave_request\<close> \<open>XX125\<close> with \<open>dev_record: true\<close>, in every
  store whose principal policy for \<open>donald_duck\<close>, version \<open>20210210\<close>, at the root
  scope is the policy of the scenario with a condition that holds for the request, the
  action \<open>approve\<close> is allowed under the policy \<open>principal.donald_duck.v20210210\<close>,
  whatever resource policies and derived roles the store holds: the principal policy
  is consulted first.
\<close>

theorem principal_policy_precedence:
  assumes "lookup_principal_policy st ''donald_duck'' ''20210210'' [] = Some (donald_duck_policy cond)"
    and "condition_holds donald_duck_request cond"
  shows "check_action st donald_duck_request ''approve'' =
           \<lparr>effect = EFFECT_ALLOW, policy = ''principal.donald_duck.v20210210'', scope = []\<rparr>"
proof -
  have req: "principal_id (principal donald_duck_request) = ''donald_duck''"
    "principal_policyVersion (principal donald_duck_request) = ''20210210''"
    "principal_scope (principal donald_duck_request) = []"
    "resource_kind (resource donald_duck_request) = ''leave_request''"
    by (simp_all add: donald_duck_request_def)
  have rule: "first_principal_rule donald_duck_request ''approve''
      (pp_rules (donald_duck_policy cond)) = Some EFFECT_ALLOW"
    using assms(2) by (simp add: donald_duck_policy_def req matches_def)
  have "principal_walk st donald_duck_request ''approve'' [[]] =
      Some \<lparr>effect = EFFECT_ALLOW, policy = ''principal.donald_duck.v20210210'', scope = []\<rparr>"
    using assms(1) rule
    by (simp add: req version_or_default_def principal_policy_id_def scope_suffix_def)
  then show ?thesis
    by (simp add: check_action_def req scope_chain_def)
qed

text \<open>
  In the example store the resource policy denies every action of an employee; the
  principal policy still decides.
\<close>

theorem principal_policy_precedence_witness:
  "check_action example_store donald_duck_request ''approve'' =
     \<lparr>effect = EFFECT_ALLOW, policy = ''principal.donald_duck.v20210210'', scope = []\<rparr>
   \<and> resource_walk example_store donald_duck_request ''approve'' [[]] =
     Some \<lparr>effect = EFFECT_DENY, policy = ''resource.leave_request.v20210210'', scope = []\<rparr>"
proof -
  have "resource_walk example_store donald_duck_request ''approve'' [[]] =
     Some \<lparr>effect = EFFECT_DENY, policy = ''resource.leave_request.v20210210'', scope = []\<rparr>"
    by (simp add: example_store_def donald_duck_request_def version_or_default_def
        lookup_resource_policy_def effectiveDerivedRoles_def imported_definitions_def
        first_resource_rule_def rule_applies_def matches_def intersects_def condition_holds_def
        after_schemas_def resource_policy_id_def scope_suffix_def)
  then show ?thesis
    using principal_policy_precedence [OF example_store_lookup dev_record_holds] by simp
qed

end
